theory Spec2Isabelle
  imports Complex_Main "HOL-Library.DAList" "HOL-Library.Sublist"
begin

section \<open>Go values shared by the three packages\<close>

text \<open>
  An \<open>error\<close> value of the sources is always made by \<^verbatim>\<open>errors.New(msg)\<close> or handed
  up from a collaborator. A Go function returning \<^verbatim>\<open>(T, error)\<close> is modelled as
  returning a pair whose second component is \<open>None\<close> for a \<^verbatim>\<open>nil\<close> error.
\<close>

datatype error = errors_New string

text \<open>
  \<^verbatim>\<open>strconv.Itoa\<close> of the Go standard library: the decimal rendering of an \<^verbatim>\<open>int\<close>,
  with a leading minus sign for a negative number and no leading zeros.
\<close>

definition digit :: "nat \<Rightarrow> char" where
  "digit d = ''0123456789'' ! d"

function decimal :: "nat \<Rightarrow> string" where
  "decimal n = (if n < 10 then [digit n] else decimal (n div 10) @ [digit (n mod 10)])"
  by pat_completeness auto
termination
  by (relation "measure (\<lambda>n. n)") auto

declare decimal.simps [simp del]

definition Itoa :: "int \<Rightarrow> string" where
  "Itoa i = (if i < 0 then CHR ''-'' # decimal (nat (- i)) else decimal (nat i))"


section \<open>Package redisvector: the metadata search command\<close>

text \<open>
  Modelled from the spec: the struct \<^verbatim>\<open>IndexVectorSearch\<close> is declared outside the given
  sources; the record has the fields that \<^verbatim>\<open>AsMetadataSearchCommand\<close> reads, with the
  types the code uses them at (\<^verbatim>\<open>index\<close> and \<^verbatim>\<open>preFilters\<close> strings, \<^verbatim>\<open>returns\<close> a slice of
  strings, \<^verbatim>\<open>limit\<close> and \<^verbatim>\<open>offset\<close> of type \<^verbatim>\<open>int\<close>).
\<close>

record IndexVectorSearch =
  index :: string
  preFilters :: string
  returns :: "string list"
  limit :: int
  offset :: int

text \<open>
  The receiver is passed by value, so the assignment \<^verbatim>\<open>s.limit = 1\<close> changes the
  method's own copy only; the model rebinds \<open>s\<close>.
\<close>

definition AsMetadataSearchCommand :: "IndexVectorSearch \<Rightarrow> string list" where
  "AsMetadataSearchCommand s0 =
     (let cmd = [''FT.SEARCH'', index s0];
          s = (if limit s0 = 0 then s0\<lparr>limit := 1\<rparr> else s0);
          filter0 = ''*'';
          filter1 = (if length (preFilters s) > 0 then preFilters s else filter0);
          cmd = cmd @ [filter1];
          cmd = (if length (returns s) > 0
                 then (cmd @ [''RETURN'', Itoa (int (length (returns s)))]) @ returns s
                 else cmd);
          cmd = cmd @ [''DIALECT'', ''2''];
          cmd = cmd @ [''LIMIT'', Itoa (offset s), Itoa (limit s)]
      in cmd)"


section \<open>Package vertexai: \<^verbatim>\<open>LLM.CreateEmbedding\<close>\<close>

text \<open>
  The PaLM client is a collaborator outside the sources. Its \<^verbatim>\<open>CreateEmbedding\<close> is a
  parameter: a function of the state of the outside world \<open>'w\<close> and of the input texts,
  returning the Go pair \<^verbatim>\<open>(embeddings, err)\<close> and the new state of the world. The type
  \<open>'emb\<close> stands for one embedding (\<^verbatim>\<open>[]float64\<close>), which the method never looks into.
\<close>

record ('w, 'emb) LLM =
  client_CreateEmbedding :: "'w \<Rightarrow> string list \<Rightarrow> ('emb list \<times> error option) \<times> 'w"

definition ErrEmptyResponse :: error where
  "ErrEmptyResponse = errors_New ''no response''"

definition ErrUnexpectedResponseLength :: error where
  "ErrUnexpectedResponseLength = errors_New ''unexpected length of response''"

definition CreateEmbedding ::
  "('w, 'emb) LLM \<Rightarrow> 'w \<Rightarrow> string list \<Rightarrow> ('emb list \<times> error option) \<times> 'w" where
  "CreateEmbedding o' w inputTexts =
     (let ((embeddings, err), w') = client_CreateEmbedding o' w inputTexts
      in if err \<noteq> None then (([], err), w')
         else if length embeddings = 0 then (([], Some ErrEmptyResponse), w')
         else if length inputTexts \<noteq> length embeddings
              then ((embeddings, Some ErrUnexpectedResponseLength), w')
         else ((embeddings, None), w'))"


section \<open>Package qdrant: the vector store\<close>

subsection \<open>Values, maps on the heap, documents\<close>

text \<open>
  A \<^verbatim>\<open>float32\<close> is a finite number, an infinity or a NaN. The store only compares the
  score threshold with the constants 0 and 1 and hands it on, so a finite value is
  modelled by the real number it denotes (the two zeros are not told apart; both pass the
  range check). \<open>f32_less\<close> is the comparison \<^verbatim>\<open><\<close> of Go: false whenever an operand is
  a NaN.
\<close>

datatype float32 = Finite real | PosInf | NegInf | NaN

fun f32_less :: "float32 \<Rightarrow> float32 \<Rightarrow> bool" where
  "f32_less NaN _ = False"
| "f32_less _ NaN = False"
| "f32_less (Finite a) (Finite b) = (a < b)"
| "f32_less (Finite _) PosInf = True"
| "f32_less (Finite _) NegInf = False"
| "f32_less PosInf _ = False"
| "f32_less NegInf NegInf = False"
| "f32_less NegInf _ = True"

text \<open>
  A Go map is a reference to a table with one value per key. The tables live in a heap,
  a list indexed by address; \<^verbatim>\<open>make\<close> appends an empty table and returns its address.
  A table is an association list with distinct keys (\<open>alist\<close>); its list order stands
  for the order in which a \<^verbatim>\<open>range\<close> loop happens to visit the entries. A value of
  type \<^verbatim>\<open>interface{}\<close> (\<^verbatim>\<open>any\<close>) is a string or a value of some other type, which the
  store never looks into (\<open>'a\<close>); a \<^verbatim>\<open>nil\<close> interface is \<open>None\<close> of \<open>'a any option\<close>.
\<close>

datatype 'a any = String string | Other 'a

type_synonym addr = nat
type_synonym 'a gomap = "(string, 'a any) alist"
type_synonym 'a heap = "'a gomap list"

definition make_map :: "'a heap \<Rightarrow> addr \<times> 'a heap" where
  "make_map h = (length h, h @ [DAList.empty])"

definition map_assign :: "addr \<Rightarrow> string \<Rightarrow> 'a any \<Rightarrow> 'a heap \<Rightarrow> 'a heap" where
  "map_assign m key val h = h[m := DAList.update key val (h ! m)]"

text \<open>The entries a \<^verbatim>\<open>range\<close> loop visits; a \<^verbatim>\<open>nil\<close> map has none.\<close>

definition map_entries :: "'a heap \<Rightarrow> addr option \<Rightarrow> (string \<times> 'a any) list" where
  "map_entries h r = (case r of None \<Rightarrow> [] | Some m \<Rightarrow> DAList.impl_of (h ! m))"

text \<open>
  Modelled from the spec: \<^verbatim>\<open>schema.Document\<close> is declared outside the given sources:
  \<open>{ PageContent: string, Metadata: mapping[string]\<rightarrow>any }\<close>. The metadata is a map
  reference: \<open>None\<close> is the \<^verbatim>\<open>nil\<close> map, \<open>Some m\<close> the table at address \<open>m\<close>.
\<close>

record Document =
  PageContent :: string
  Metadata :: "addr option"

subsection \<open>Collaborators and the record of their calls\<close>

text \<open>
  Every call that leaves the store is written to a trace, with the arguments handed over
  (and, for the deduplicater and the embedder, what came back). A collaborator may write
  to what it is handed by reference: the embedder to the slice of texts, a deduplicater to
  the maps of the heap.
\<close>

datatype ('vec, 'a) event =
    CallDeduplicater Document bool
  | CallEmbedDocuments "string list" "'vec list" "error option"
  | CallEmbedQuery string 'vec "error option"
  | CallUpsertPoints string "'vec list" "'a gomap list"
  | CallSearchPoints string 'vec int float32 "'a any option"
  | CallScroll string int "'a any option"

text \<open>
  The state a call runs in: the outside world \<open>'w\<close> (whatever the embedder, the backend
  and a deduplicater remember; the context \<^verbatim>\<open>ctx\<close> is part of it), the heap of maps, and
  the trace.
\<close>

record ('w, 'vec, 'a) state =
  world :: 'w
  heap :: "'a heap"
  trace :: "('vec, 'a) event list"

text \<open>The events written between two states.\<close>

definition issued :: "('w, 'vec, 'a) state \<Rightarrow> ('w, 'vec, 'a) state \<Rightarrow> ('vec, 'a) event list" where
  "issued st st' = drop (length (trace st)) (trace st')"

text \<open>
  The elements of a slice after a callee it was handed to made the given assignments
  \<^verbatim>\<open>xs[i] = v\<close>, in order. The slice shares its array with the caller, who sees the
  assignments; its length is the caller's and stays. An index out of range is a panic
  inside the callee, which then does not return: here such an assignment changes nothing.
\<close>

fun slice_writes :: "'b list \<Rightarrow> (nat \<times> 'b) list \<Rightarrow> 'b list" where
  "slice_writes xs [] = xs"
| "slice_writes xs ((i, v) # rest) = slice_writes (xs[i := v]) rest"

text \<open>
  Modelled from the spec: the interface \<^verbatim>\<open>embeddings.Embedder\<close> is declared outside the
  given sources: \<open>EmbedDocuments(ctx, texts: seq[string]) \<rightarrow> seq[vector]\<close> and
  \<open>EmbedQuery(ctx, text: string) \<rightarrow> vector\<close>, each with an error. The type \<open>'vec\<close> stands
  for one vector. \<^verbatim>\<open>EmbedDocuments\<close> is handed the slice of texts itself, so besides the
  Go pair \<^verbatim>\<open>(vectors, err)\<close> and the new world it yields the assignments it made to the
  elements of that slice.
\<close>

record ('w, 'vec) Embedder =
  EmbedDocuments ::
    "'w \<Rightarrow> string list \<Rightarrow> ('vec list \<times> error option) \<times> (nat \<times> string) list \<times> 'w"
  EmbedQuery :: "'w \<Rightarrow> string \<Rightarrow> ('vec \<times> error option) \<times> 'w"

record ('w, 'vec) Store =
  embedder :: "('w, 'vec) Embedder"
  collectionName :: string
  qdrantURL :: string
  apiKey :: string
  contentKey :: string

text \<open>
  Modelled from the spec: the methods \<^verbatim>\<open>upsertPoints\<close>, \<^verbatim>\<open>searchPoints\<close> and \<^verbatim>\<open>scroll\<close> of
  \<^verbatim>\<open>Store\<close> are defined outside the given sources; they wrap the backend calls
  \<open>UpsertPoints(ctx, endpoint, vectors, payloads) \<rightarrow> (ids, error)\<close>,
  \<open>SearchPoints(ctx, endpoint, vector, numResults, scoreThreshold, filter) \<rightarrow> (hits, error)\<close>
  and \<open>Scroll(ctx, endpoint, numResults, filter) \<rightarrow> (records, error)\<close>. They are
  parameters. The upsert is handed the vectors and the new payload maps, and nothing else
  of the heap; the store reads neither after the call, and the heap keeps the payload maps
  as they were handed over. The two searches return documents, whose metadata maps they
  allocate, so they take and return the heap. A returned slice is \<open>None\<close> when it is
  \<^verbatim>\<open>nil\<close>.
\<close>

record ('w, 'vec, 'a) client =
  upsertPoints :: "'w \<Rightarrow> string \<Rightarrow> 'vec list \<Rightarrow> 'a gomap list
                     \<Rightarrow> (string list option \<times> error option) \<times> 'w"
  searchPoints :: "'w \<Rightarrow> 'a heap \<Rightarrow> string \<Rightarrow> 'vec \<Rightarrow> int \<Rightarrow> float32 \<Rightarrow> 'a any option
                     \<Rightarrow> (Document list option \<times> error option) \<times> 'w \<times> 'a heap"
  scroll :: "'w \<Rightarrow> 'a heap \<Rightarrow> string \<Rightarrow> int \<Rightarrow> 'a any option
                     \<Rightarrow> (Document list option \<times> error option) \<times> 'w \<times> 'a heap"

text \<open>
  Modelled from the spec: \<^verbatim>\<open>vectorstores.Options\<close> and \<^verbatim>\<open>vectorstores.Option\<close> are declared
  outside the given sources: \<open>{ scoreThreshold: float, filters: opaque backend-specific
  filter value, deduplicater: optional predicate }\<close>, the deduplicater being
  \<open>(ctx, document) \<rightarrow> bool\<close>, true meaning "drop this document". The record has the
  fields the store reads. A deduplicater is handed the document, whose metadata is a map
  reference: it may read and write the maps of the heap, and change the world; it returns
  its answer, the world and the heap it leaves. An option is a function that updates the
  options.
\<close>

record ('w, 'a) Options =
  ScoreThreshold :: float32
  Filters :: "'a any option"
  Deduplicater :: "('w \<Rightarrow> 'a heap \<Rightarrow> Document \<Rightarrow> bool \<times> 'w \<times> 'a heap) option"

type_synonym ('w, 'a) Option = "('w, 'a) Options \<Rightarrow> ('w, 'a) Options"

text \<open>The zero value \<^verbatim>\<open>vectorstores.Options{}\<close>.\<close>

definition zero_Options :: "('w, 'a) Options" where
  "zero_Options = \<lparr>ScoreThreshold = Finite 0, Filters = None, Deduplicater = None\<rparr>"

subsection \<open>The helpers of the store\<close>

fun apply_options :: "('w, 'a) Options \<Rightarrow> ('w, 'a) Option list \<Rightarrow> ('w, 'a) Options" where
  "apply_options opts [] = opts"
| "apply_options opts (opt # rest) = apply_options (opt opts) rest"

definition getOptions :: "('w, 'a) Option list \<Rightarrow> ('w, 'a) Options" where
  "getOptions options = apply_options zero_Options options"

definition getScoreThreshold :: "('w, 'a) Options \<Rightarrow> float32 \<times> error option" where
  "getScoreThreshold opts =
     (if f32_less (ScoreThreshold opts) (Finite 0) \<or> f32_less (Finite 1) (ScoreThreshold opts)
      then (Finite 0, Some (errors_New ''score threshold must be between 0 and 1''))
      else (ScoreThreshold opts, None))"

definition getFilters :: "('w, 'a) Options \<Rightarrow> 'a any option" where
  "getFilters opts = (if Filters opts \<noteq> None then Filters opts else None)"

text \<open>The loop of \<^verbatim>\<open>deduplicate\<close>: one call of the predicate per document, in order.\<close>

fun deduplicate_loop ::
  "('w \<Rightarrow> 'a heap \<Rightarrow> Document \<Rightarrow> bool \<times> 'w \<times> 'a heap) \<Rightarrow> ('w, 'vec, 'a) state
     \<Rightarrow> Document list
     \<Rightarrow> Document list \<Rightarrow> Document list \<times> ('w, 'vec, 'a) state" where
  "deduplicate_loop dd st [] filtered = (filtered, st)"
| "deduplicate_loop dd st (doc # rest) filtered =
     (let (dup, w', h') = dd (world st) (heap st) doc;
          st' = st\<lparr>world := w', heap := h',
                   trace := trace st @ [CallDeduplicater doc dup]\<rparr>
      in deduplicate_loop dd st' rest (if \<not> dup then filtered @ [doc] else filtered))"

definition deduplicate ::
  "('w, 'vec, 'a) state \<Rightarrow> ('w, 'a) Options \<Rightarrow> Document list
     \<Rightarrow> Document list \<times> ('w, 'vec, 'a) state" where
  "deduplicate st opts docs =
     (case Deduplicater opts of
        None \<Rightarrow> (docs, st)
      | Some dd \<Rightarrow> deduplicate_loop dd st docs [])"


subsection \<open>\<^verbatim>\<open>AddDocuments\<close>\<close>

text \<open>The loop that collects the page contents.\<close>

fun texts_loop :: "Document list \<Rightarrow> string list \<Rightarrow> string list" where
  "texts_loop [] texts = texts"
| "texts_loop (doc # rest) texts = texts_loop rest (texts @ [PageContent doc])"

text \<open>The inner loop \<^verbatim>\<open>for key, value := range docs[i].Metadata\<close>, writing to the new map.\<close>

fun copy_loop :: "addr \<Rightarrow> (string \<times> 'a any) list \<Rightarrow> 'a heap \<Rightarrow> 'a heap" where
  "copy_loop metadata [] h = h"
| "copy_loop metadata ((key, val) # rest) h =
     copy_loop metadata rest (map_assign metadata key val h)"

text \<open>
  The loop over \<open>i\<close> that builds one payload map per document. The index \<open>i\<close> stays below
  \<open>length docs\<close>, and \<open>texts\<close> has the length of \<open>docs\<close>, so both reads are in range.
  It reads \<open>texts\<close> after the embedder has run: the slice built before the call, with
  the assignments the embedder made to it.
\<close>

function metadatas_loop ::
  "string \<Rightarrow> Document list \<Rightarrow> string list \<Rightarrow> nat \<Rightarrow> addr list \<Rightarrow> 'a heap
     \<Rightarrow> addr list \<times> 'a heap" where
  "metadatas_loop ck docs texts i metadatas h =
     (if i < length docs
      then (let (metadata, h1) = make_map h;
                h2 = copy_loop metadata (map_entries h1 (Metadata (docs ! i))) h1;
                h3 = map_assign metadata ck (String (texts ! i)) h2
            in metadatas_loop ck docs texts (i + 1) (metadatas @ [metadata]) h3)
      else (metadatas, h))"
  by pat_completeness auto
termination
  by (relation "measure (\<lambda>(ck, docs, texts, i, metadatas, h). length docs - i)") auto

declare metadatas_loop.simps [simp del]

definition AddDocuments ::
  "('w, 'vec) Store \<Rightarrow> ('w, 'vec, 'a) client \<Rightarrow> ('w, 'vec, 'a) state \<Rightarrow> Document list
     \<Rightarrow> ('w, 'a) Option list
     \<Rightarrow> (string list option \<times> error option) \<times> ('w, 'vec, 'a) state" where
  "AddDocuments s cl st0 docs0 options =
     (let opts = getOptions options;
          (docs, st1) = deduplicate st0 opts docs0
      in if length docs = 0 then ((None, None), st1)
         else
          (let texts0 = texts_loop docs [];
               ((vectors, err), writes, w2) =
                 EmbedDocuments (embedder s) (world st1) texts0;
               texts = slice_writes texts0 writes;
               st2 = st1\<lparr>world := w2,
                         trace := trace st1 @ [CallEmbedDocuments texts0 vectors err]\<rparr>
           in if err \<noteq> None then ((None, err), st2)
              else if length vectors \<noteq> length docs
              then ((None, Some (errors_New
                      ''number of vectors from embedder does not match number of documents'')),
                    st2)
              else
               (let (metadatas, h3) =
                      metadatas_loop (contentKey s) docs texts 0 [] (heap st2);
                    payloads = map (\<lambda>m. h3 ! m) metadatas;
                    (ret, w4) = upsertPoints cl (world st2) (qdrantURL s) vectors payloads
                in (ret, st2\<lparr>world := w4, heap := h3,
                              trace := trace st2
                                @ [CallUpsertPoints (qdrantURL s) vectors payloads]\<rparr>))))"

subsection \<open>\<^verbatim>\<open>SimilaritySearch\<close> and \<^verbatim>\<open>PayloadSearch\<close>\<close>

definition SimilaritySearch ::
  "('w, 'vec) Store \<Rightarrow> ('w, 'vec, 'a) client \<Rightarrow> ('w, 'vec, 'a) state \<Rightarrow> string \<Rightarrow> int
     \<Rightarrow> ('w, 'a) Option list
     \<Rightarrow> (Document list option \<times> error option) \<times> ('w, 'vec, 'a) state" where
  "SimilaritySearch s cl st0 query numDocuments options =
     (let opts = getOptions options;
          filters = getFilters opts;
          (scoreThreshold, err) = getScoreThreshold opts
      in if err \<noteq> None then ((None, err), st0)
         else
          (let ((vector, err), w1) = EmbedQuery (embedder s) (world st0) query;
               st1 = st0\<lparr>world := w1, trace := trace st0 @ [CallEmbedQuery query vector err]\<rparr>
           in if err \<noteq> None then ((None, err), st1)
              else
               (let (ret, w2, h2) =
                      searchPoints cl (world st1) (heap st1) (qdrantURL s) vector numDocuments
                        scoreThreshold filters
                in (ret, st1\<lparr>world := w2, heap := h2,
                              trace := trace st1
                                @ [CallSearchPoints (qdrantURL s) vector numDocuments
                                     scoreThreshold filters]\<rparr>))))"

definition PayloadSearch ::
  "('w, 'vec) Store \<Rightarrow> ('w, 'vec, 'a) client \<Rightarrow> ('w, 'vec, 'a) state \<Rightarrow> int
     \<Rightarrow> ('w, 'a) Option list
     \<Rightarrow> (Document list option \<times> error option) \<times> ('w, 'vec, 'a) state" where
  "PayloadSearch s cl st0 numDocuments options =
     (let opts = getOptions options;
          filters = getFilters opts;
          (ret, w1, h1) = scroll cl (world st0) (heap st0) (qdrantURL s) numDocuments filters
      in (ret, st0\<lparr>world := w1, heap := h1,
                    trace := trace st0 @ [CallScroll (qdrantURL s) numDocuments filters]\<rparr>))"


section \<open>Notions used to state the properties\<close>

text \<open>
  Modelled from the spec: the options \<^verbatim>\<open>WithScoreThreshold\<close> and \<^verbatim>\<open>WithDeduplicater\<close> of
  the package \<^verbatim>\<open>vectorstores\<close> are defined outside the given sources; each sets one of
  the per-call options "scoreThreshold, filters (opaque), deduplicater override".
\<close>

definition WithScoreThreshold :: "float32 \<Rightarrow> ('w, 'a) Option" where
  "WithScoreThreshold scoreThreshold opts = opts\<lparr>ScoreThreshold := scoreThreshold\<rparr>"

definition WithDeduplicater ::
  "('w \<Rightarrow> 'a heap \<Rightarrow> Document \<Rightarrow> bool \<times> 'w \<times> 'a heap) \<Rightarrow> ('w, 'a) Option" where
  "WithDeduplicater fn opts = opts\<lparr>Deduplicater := Some fn\<rparr>"

text \<open>The table a map reference stands for; reading a \<^verbatim>\<open>nil\<close> map finds no entry.\<close>

definition table :: "'a heap \<Rightarrow> addr option \<Rightarrow> 'a gomap" where
  "table h r = (case r of None \<Rightarrow> DAList.empty | Some m \<Rightarrow> h ! m)"

text \<open>
  Go has no dangling references: the metadata of every document handed to the store is
  \<^verbatim>\<open>nil\<close> or a map that has been allocated.
\<close>

definition valid_docs :: "'a heap \<Rightarrow> Document list \<Rightarrow> bool" where
  "valid_docs h docs =
     (\<forall>d \<in> set docs. case Metadata d of None \<Rightarrow> True | Some m \<Rightarrow> m < length h)"

text \<open>
  The payload of the spec, in its words: "given a Document and its corresponding raw
  text", the document's metadata "with one additional or overwritten key (the configured
  content key) set to the raw text".
\<close>

definition payload :: "'a heap \<Rightarrow> string \<Rightarrow> Document \<Rightarrow> string \<Rightarrow> 'a gomap" where
  "payload h ck d text = DAList.update ck (String text) (table h (Metadata d))"

text \<open>
  The answers of a deduplicater asked about the documents one after the other, each call
  in the world and the heap the previous one left; the world and the heap after the last
  call. A deduplicater that only reads leaves every heap as it finds it.
\<close>

fun verdicts ::
  "('w \<Rightarrow> 'a heap \<Rightarrow> Document \<Rightarrow> bool \<times> 'w \<times> 'a heap) \<Rightarrow> 'w \<Rightarrow> 'a heap \<Rightarrow> Document list
     \<Rightarrow> bool list" where
  "verdicts dd w h [] = []"
| "verdicts dd w h (doc # rest) =
     (let (dup, w', h') = dd w h doc in dup # verdicts dd w' h' rest)"

fun world_after ::
  "('w \<Rightarrow> 'a heap \<Rightarrow> Document \<Rightarrow> bool \<times> 'w \<times> 'a heap) \<Rightarrow> 'w \<Rightarrow> 'a heap \<Rightarrow> Document list
     \<Rightarrow> 'w" where
  "world_after dd w h [] = w"
| "world_after dd w h (doc # rest) =
     (let (dup, w', h') = dd w h doc in world_after dd w' h' rest)"

fun heap_after ::
  "('w \<Rightarrow> 'a heap \<Rightarrow> Document \<Rightarrow> bool \<times> 'w \<times> 'a heap) \<Rightarrow> 'w \<Rightarrow> 'a heap \<Rightarrow> Document list
     \<Rightarrow> 'a heap" where
  "heap_after dd w h [] = h"
| "heap_after dd w h (doc # rest) =
     (let (dup, w', h') = dd w h doc in heap_after dd w' h' rest)"

definition reads_only :: "('w \<Rightarrow> 'a heap \<Rightarrow> Document \<Rightarrow> bool \<times> 'w \<times> 'a heap) \<Rightarrow> bool" where
  "reads_only dd = (\<forall>w h d. snd (snd (dd w h d)) = h)"

text \<open>The documents whose answer was "not a duplicate", in input order.\<close>

definition kept :: "Document list \<Rightarrow> bool list \<Rightarrow> Document list" where
  "kept docs dups = map fst (filter (\<lambda>(doc, dup). \<not> dup) (zip docs dups))"

text \<open>The calls of the deduplicater that \<^verbatim>\<open>deduplicate\<close> makes.\<close>

definition dedup_calls ::
  "('w, 'a) Options \<Rightarrow> ('w, 'vec, 'a) state \<Rightarrow> Document list \<Rightarrow> ('vec, 'a) event list" where
  "dedup_calls opts st docs =
     (case Deduplicater opts of
        None \<Rightarrow> []
      | Some dd \<Rightarrow> map2 CallDeduplicater docs (verdicts dd (world st) (heap st) docs))"

text \<open>Which events are calls of the embedder, and which are backend RPCs.\<close>

fun embedder_call :: "('vec, 'a) event \<Rightarrow> bool" where
  "embedder_call (CallEmbedDocuments _ _ _) = True"
| "embedder_call (CallEmbedQuery _ _ _) = True"
| "embedder_call _ = False"

fun backend_call :: "('vec, 'a) event \<Rightarrow> bool" where
  "backend_call (CallUpsertPoints _ _ _) = True"
| "backend_call (CallSearchPoints _ _ _ _ _) = True"
| "backend_call (CallScroll _ _ _) = True"
| "backend_call _ = False"


section \<open>Concrete collaborators and inputs\<close>

text \<open>
  A world that counts the calls made to it, an embedder that maps a text to the vector
  holding its length, one that loses the vector of the last text, one that overwrites
  the first text it is handed, and a backend that knows no documents.
\<close>

definition example_embedder :: "(nat, nat list) Embedder" where
  "example_embedder =
     \<lparr>EmbedDocuments = (\<lambda>w texts. ((map (\<lambda>t. [length t]) texts, None), [], Suc w)),
      EmbedQuery = (\<lambda>w text. (([length text], None), Suc w))\<rparr>"

definition lossy_embedder :: "(nat, nat list) Embedder" where
  "lossy_embedder =
     \<lparr>EmbedDocuments =
        (\<lambda>w texts. ((map (\<lambda>t. [length t]) (butlast texts), None), [], Suc w)),
      EmbedQuery = (\<lambda>w text. (([length text], None), Suc w))\<rparr>"

definition writing_embedder :: "(nat, nat list) Embedder" where
  "writing_embedder =
     \<lparr>EmbedDocuments =
        (\<lambda>w texts. ((map (\<lambda>t. [length t]) texts, None), [(0, ''MUTATED'')], Suc w)),
      EmbedQuery = (\<lambda>w text. (([length text], None), Suc w))\<rparr>"

definition example_store :: "(nat, nat list) Store" where
  "example_store =
     \<lparr>embedder = example_embedder, collectionName = ''docs'',
      qdrantURL = ''http://localhost:6333'', apiKey = [], contentKey = ''content''\<rparr>"

definition lossy_store :: "(nat, nat list) Store" where
  "lossy_store = example_store\<lparr>embedder := lossy_embedder\<rparr>"

definition writing_store :: "(nat, nat list) Store" where
  "writing_store = example_store\<lparr>embedder := writing_embedder\<rparr>"

definition example_client :: "(nat, nat list, unit) client" where
  "example_client =
     \<lparr>upsertPoints =
        (\<lambda>w url vectors payloads. ((Some (map (\<lambda>v. ''id'') vectors), None), Suc w)),
      searchPoints = (\<lambda>w h url vector n t f. ((Some [], None), Suc w, h)),
      scroll = (\<lambda>w h url n f. ((Some [], None), Suc w, h))\<rparr>"

definition example_heap :: "unit heap" where
  "example_heap = [DAList.update ''job'' (String ''engineer'') DAList.empty]"

definition example_doc :: Document where
  "example_doc = \<lparr>PageContent = ''hello'', Metadata = Some 0\<rparr>"

definition other_doc :: Document where
  "other_doc = \<lparr>PageContent = ''world'', Metadata = None\<rparr>"

definition example_state :: "(nat, nat list, unit) state" where
  "example_state = \<lparr>world = 0, heap = example_heap, trace = []\<rparr>"

text \<open>
  Three deduplicaters: one that drops the documents saying hello, one that drops every
  document, and one that drops none and marks the metadata map of each document it sees.
\<close>

definition is_hello :: "nat \<Rightarrow> unit heap \<Rightarrow> Document \<Rightarrow> bool \<times> nat \<times> unit heap" where
  "is_hello w h d = (PageContent d = ''hello'', w, h)"

definition always_duplicate ::
  "nat \<Rightarrow> unit heap \<Rightarrow> Document \<Rightarrow> bool \<times> nat \<times> unit heap" where
  "always_duplicate w h d = (True, Suc w, h)"

definition marking :: "nat \<Rightarrow> unit heap \<Rightarrow> Document \<Rightarrow> bool \<times> nat \<times> unit heap" where
  "marking w h d =
     (False, Suc w,
      case Metadata d of None \<Rightarrow> h | Some m \<Rightarrow> map_assign m ''seen'' (String ''yes'') h)"

definition example_llm :: "(nat, nat list) LLM" where
  "example_llm =
     \<lparr>client_CreateEmbedding = (\<lambda>w texts. ((map (\<lambda>t. [length t]) texts, None), Suc w))\<rparr>"

definition lossy_llm :: "(nat, nat list) LLM" where
  "lossy_llm =
     \<lparr>client_CreateEmbedding =
        (\<lambda>w texts. ((map (\<lambda>t. [length t]) (butlast texts), None), Suc w))\<rparr>"

definition example_search :: IndexVectorSearch where
  "example_search =
     \<lparr>index = ''users'', preFilters = [], returns = [''content''], limit = 0, offset = 0\<rparr>"

definition negative_limit_search :: IndexVectorSearch where
  "negative_limit_search =
     \<lparr>index = ''users'', preFilters = [], returns = [], limit = - 1, offset = 0\<rparr>"


section \<open>Lemmas about the helpers\<close>

subsection \<open>Decimal rendering\<close>

lemma digit_eq_zero: "d < 10 \<Longrightarrow> digit d = CHR ''0'' \<longleftrightarrow> d = 0"
  by (auto simp: digit_def numeral_eq_Suc less_Suc_eq)

lemma decimal_nonempty: "decimal n \<noteq> []"
  by (subst decimal.simps) simp

lemma decimal_eq_zero: "decimal n = ''0'' \<longleftrightarrow> n = 0"
proof (cases "n < 10")
  case True
  then show ?thesis by (subst decimal.simps) (simp add: digit_eq_zero)
next
  case False
  then have "length (decimal n) \<ge> 2"
    using decimal_nonempty [of "n div 10"]
    by (subst decimal.simps) (simp add: Suc_le_eq)
  with False show ?thesis by auto
qed

lemma Itoa_eq_zero: "Itoa i = ''0'' \<longleftrightarrow> i = 0"
  by (auto simp: Itoa_def decimal_eq_zero)

lemma Itoa_examples:
  "Itoa 0 = ''0''" "Itoa 1 = ''1''" "Itoa (-1) = ''-1''" "Itoa 3 = ''3''" "Itoa 120 = ''120''"
  by (simp_all add: Itoa_def digit_def decimal.simps)

subsection \<open>The loops of \<^verbatim>\<open>AddDocuments\<close>\<close>

lemma texts_loop_map: "texts_loop docs texts = texts @ map PageContent docs"
  by (induction docs arbitrary: texts) auto

lemma map_entries_table: "map_entries h r = DAList.impl_of (table h r)"
  by (simp add: map_entries_def table_def empty.rep_eq split: option.splits)

lemma update_fresh_key: "k \<notin> fst ` set xs \<Longrightarrow> AList.update k v xs = xs @ [(k, v)]"
  by (induction xs) auto

lemma copy_loop_fresh:
  "distinct (map fst (xs @ es)) \<Longrightarrow> DAList.impl_of al = xs \<Longrightarrow>
   copy_loop (length h) es (h @ [al]) = h @ [Alist (xs @ es)]"
proof (induction es arbitrary: xs al)
  case Nil
  then show ?case using Alist_impl_of [of al] by simp
next
  case (Cons e es)
  obtain k v where e: "e = (k, v)" by (cases e)
  from Cons.prems have fresh: "k \<notin> fst ` set xs" by (auto simp: e)
  have step: "map_assign (length h) k v (h @ [al]) = h @ [DAList.update k v al]"
    by (simp add: map_assign_def)
  have impl: "DAList.impl_of (DAList.update k v al) = xs @ [(k, v)]"
    using fresh Cons.prems(2) by (simp add: update.rep_eq update_fresh_key)
  have "distinct (map fst ((xs @ [(k, v)]) @ es))" using Cons.prems(1) by (simp add: e)
  from Cons.IH [OF this impl] show ?case by (simp add: e step)
qed

lemma copy_loop_table:
  "copy_loop (length h) (DAList.impl_of t) (h @ [DAList.empty]) = h @ [t]"
  using copy_loop_fresh [of "[]" "DAList.impl_of t" DAList.empty h]
  by (simp add: empty.rep_eq Alist_impl_of)

lemma table_append: "(case r of None \<Rightarrow> True | Some m \<Rightarrow> m < length h) \<Longrightarrow> table (h @ ps) r = table h r"
  by (auto simp: table_def nth_append split: option.splits)

lemma length_slice_writes: "length (slice_writes xs writes) = length xs"
  by (induction writes arbitrary: xs) auto

lemma slice_writes_untouched:
  "i \<notin> fst ` set writes \<Longrightarrow> slice_writes xs writes ! i = xs ! i"
  by (induction writes arbitrary: xs) auto

lemma metadatas_loop_spec:
  "valid_docs h0 docs \<Longrightarrow> h = h0 @ ps \<Longrightarrow>
   metadatas_loop ck docs texts i metadatas h =
     (metadatas @ [length h ..< length h + (length docs - i)],
      h @ map (\<lambda>j. payload h0 ck (docs ! j) (texts ! j)) [i ..< length docs])"
proof (induction ck docs texts i metadatas h arbitrary: ps rule: metadatas_loop.induct)
  case (1 ck docs texts i metadatas h)
  show ?case
  proof (cases "i < length docs")
    case False
    then show ?thesis by (subst metadatas_loop.simps) simp
  next
    case True
    let ?d = "docs ! i"
    let ?p = "payload h0 ck ?d (texts ! i)"
    have valid: "case Metadata ?d of None \<Rightarrow> True | Some m \<Rightarrow> m < length h0"
      using True "1.prems"(1) by (simp add: valid_docs_def)
    have tab: "table (h @ [DAList.empty]) (Metadata ?d) = table h0 (Metadata ?d)"
      using table_append [OF valid, of "ps @ [DAList.empty]"] "1.prems"(2) by simp
    have h2: "copy_loop (length h) (map_entries (h @ [DAList.empty]) (Metadata ?d))
                (h @ [DAList.empty])
                = h @ [table h0 (Metadata ?d)]"
      by (simp add: map_entries_table tab copy_loop_table)
    have h3: "map_assign (length h) ck (String (texts ! i)) (h @ [table h0 (Metadata ?d)])
                = h @ [?p]"
      by (simp add: map_assign_def payload_def)
    let ?h' = "h @ [?p]"
    have ih: "metadatas_loop ck docs texts (i + 1) (metadatas @ [length h]) ?h'
        = ((metadatas @ [length h])
             @ [length ?h' ..< length ?h' + (length docs - (i + 1))],
           ?h' @ map (\<lambda>j. payload h0 ck (docs ! j) (texts ! j)) [i + 1 ..< length docs])"
    proof (rule "1.IH" [OF True _ _ _ _ "1.prems"(1), where ps = "ps @ [?p]"])
      show "(length h, h @ [DAList.empty]) = make_map h" by (simp add: make_map_def)
      show "(length h, h @ [DAList.empty]) = (length h, h @ [DAList.empty])" by (rule refl)
      show "h @ [table h0 (Metadata ?d)]
              = copy_loop (length h) (map_entries (h @ [DAList.empty]) (Metadata ?d))
                  (h @ [DAList.empty])"
        by (simp add: h2)
      show "?h' = map_assign (length h) ck (String (texts ! i)) (h @ [table h0 (Metadata ?d)])"
        by (simp add: h3)
      show "?h' = h0 @ ps @ [?p]" by (simp add: "1.prems"(2))
    qed
    have idx: "[i ..< length docs] = i # [i + 1 ..< length docs]"
      using True by (simp add: upt_conv_Cons)
    have upt: "[length h ..< length h + (length docs - i)]
                 = length h # [Suc (length h) ..< Suc (length h) + (length docs - (i + 1))]"
    proof -
      have e: "Suc (length h) + (length docs - (i + 1)) = length h + (length docs - i)"
        using True by simp
      have "length h < length h + (length docs - i)" using True by simp
      then have "[length h ..< length h + (length docs - i)]
                   = length h # [Suc (length h) ..< length h + (length docs - i)]"
        by (rule upt_conv_Cons)
      then show ?thesis by (simp only: e)
    qed
    have unfold: "metadatas_loop ck docs texts i metadatas h
        = metadatas_loop ck docs texts (i + 1) (metadatas @ [length h]) ?h'"
      by (subst metadatas_loop.simps) (simp add: True make_map_def h2 h3)
    show ?thesis
      unfolding unfold ih idx upt by simp
  qed
qed

lemma read_fresh: "map (\<lambda>m. (h @ ps) ! m) [length h ..< length h + length ps] = ps"
  by (rule map_upt_eqI) simp_all

lemma index_map2:
  "length ys = length xs \<Longrightarrow> map (\<lambda>j. f (xs ! j) (ys ! j)) [0 ..< length xs] = map2 f xs ys"
  by (rule nth_equalityI) simp_all

lemma metadatas_loop_all:
  "valid_docs h docs \<Longrightarrow> length texts = length docs \<Longrightarrow>
   metadatas_loop ck docs texts 0 [] h =
     ([length h ..< length h + length docs], h @ map2 (payload h ck) docs texts)"
  using metadatas_loop_spec [of h docs h "[]" ck texts 0 "[]"] index_map2 [of texts docs]
  by simp

lemma lookup_payload:
  "DAList.lookup (payload h ck d text)
     = (DAList.lookup (table h (Metadata d)))(ck \<mapsto> String text)"
  by (rule ext) (simp add: payload_def lookup_update)

subsection \<open>\<^verbatim>\<open>deduplicate\<close>\<close>

lemma length_verdicts: "length (verdicts dd w h docs) = length docs"
  by (induction docs arbitrary: w h) (auto split: prod.splits)

lemma kept_Cons: "kept (d # docs) (b # bs) = (if b then kept docs bs else d # kept docs bs)"
  by (simp add: kept_def)

lemma kept_Nil: "kept [] bs = []"
  by (simp add: kept_def)

lemma deduplicate_loop_spec:
  "deduplicate_loop dd st docs filtered =
     (filtered @ kept docs (verdicts dd (world st) (heap st) docs),
      st\<lparr>world := world_after dd (world st) (heap st) docs,
         heap := heap_after dd (world st) (heap st) docs,
         trace := trace st @ map2 CallDeduplicater docs (verdicts dd (world st) (heap st) docs)\<rparr>)"
proof (induction docs arbitrary: st filtered)
  case Nil
  show ?case by (simp add: kept_Nil)
next
  case (Cons doc rest)
  obtain dup w' h' where dd: "dd (world st) (heap st) doc = (dup, w', h')"
    by (cases "dd (world st) (heap st) doc")
  show ?case
    by (simp add: dd Cons.IH kept_Cons)
qed

lemma subseq_kept: "subseq (kept docs dups) docs"
proof (induction docs arbitrary: dups)
  case Nil
  show ?case by (simp add: kept_Nil)
next
  case (Cons d docs)
  show ?case
  proof (cases dups)
    case Nil
    then show ?thesis by (simp add: kept_def)
  next
    case (Cons b bs)
    then show ?thesis using Cons.IH [of bs] by (auto simp: kept_Cons)
  qed
qed

lemma kept_pure:
  "(\<And>w d. dd w h d = (p d, w, h)) \<Longrightarrow>
   kept docs (verdicts dd w h docs) = filter (\<lambda>d. \<not> p d) docs"
  by (induction docs) (auto simp: kept_Cons kept_Nil)

lemma heap_after_reads_only: "reads_only dd \<Longrightarrow> heap_after dd w h docs = h"
proof (induction docs arbitrary: w h)
  case Nil
  show ?case by simp
next
  case (Cons doc rest)
  obtain dup w' h' where dd: "dd w h doc = (dup, w', h')" by (cases "dd w h doc")
  from Cons.prems have "snd (snd (dd w h doc)) = h" by (simp add: reads_only_def)
  then have "h' = h" by (simp add: dd)
  with Cons dd show ?case by simp
qed

lemma deduplicate_spec:
  "deduplicate st opts docs =
     (case Deduplicater opts of
        None \<Rightarrow> (docs, st)
      | Some dd \<Rightarrow> (kept docs (verdicts dd (world st) (heap st) docs),
                    st\<lparr>world := world_after dd (world st) (heap st) docs,
                       heap := heap_after dd (world st) (heap st) docs,
                       trace := trace st @ dedup_calls opts st docs\<rparr>))"
  by (simp add: deduplicate_def deduplicate_loop_spec dedup_calls_def split: option.splits)

lemma deduplicate_state:
  assumes "deduplicate st opts docs = (survivors, st1)"
  shows "trace st1 = trace st @ dedup_calls opts st docs"
    and "subseq survivors docs"
    and "(case Deduplicater opts of None \<Rightarrow> True | Some dd \<Rightarrow> reads_only dd)
           \<Longrightarrow> heap st1 = heap st"
  using assms
  by (auto simp: deduplicate_spec dedup_calls_def subseq_kept heap_after_reads_only
      split: option.splits)

lemma issued_append: "trace st' = trace st @ evs \<Longrightarrow> issued st st' = evs"
  by (simp add: issued_def)

lemma dedup_calls_only: "e \<in> set (dedup_calls opts st docs) \<Longrightarrow> \<exists>d b. e = CallDeduplicater d b"
  by (auto simp: dedup_calls_def split: option.splits dest!: set_zip_leftD in_set_zipE)

subsection \<open>The branches of \<^verbatim>\<open>AddDocuments\<close>\<close>

lemma AddDocuments_empty:
  "deduplicate st (getOptions options) docs = ([], st1) \<Longrightarrow>
   AddDocuments s cl st docs options = ((None, None), st1)"
  by (simp add: AddDocuments_def)

lemma AddDocuments_embed_error:
  "deduplicate st (getOptions options) docs = (survivors, st1) \<Longrightarrow> survivors \<noteq> [] \<Longrightarrow>
   EmbedDocuments (embedder s) (world st1) (map PageContent survivors)
     = ((vectors, Some e), writes, w2) \<Longrightarrow>
   AddDocuments s cl st docs options =
     ((None, Some e),
      st1\<lparr>world := w2,
          trace := trace st1 @ [CallEmbedDocuments (map PageContent survivors) vectors (Some e)]\<rparr>)"
  by (simp add: AddDocuments_def texts_loop_map)

lemma AddDocuments_mismatch:
  "deduplicate st (getOptions options) docs = (survivors, st1) \<Longrightarrow> survivors \<noteq> [] \<Longrightarrow>
   EmbedDocuments (embedder s) (world st1) (map PageContent survivors)
     = ((vectors, None), writes, w2) \<Longrightarrow>
   length vectors \<noteq> length survivors \<Longrightarrow>
   AddDocuments s cl st docs options =
     ((None, Some (errors_New
         ''number of vectors from embedder does not match number of documents'')),
      st1\<lparr>world := w2,
          trace := trace st1 @ [CallEmbedDocuments (map PageContent survivors) vectors None]\<rparr>)"
  by (simp add: AddDocuments_def texts_loop_map)

lemma AddDocuments_upsert:
  assumes ded: "deduplicate st (getOptions options) docs = (survivors, st1)"
    and ne: "survivors \<noteq> []"
    and emb: "EmbedDocuments (embedder s) (world st1) (map PageContent survivors)
                = ((vectors, None), writes, w2)"
    and len: "length vectors = length survivors"
    and valid: "valid_docs (heap st1) survivors"
    and ups: "upsertPoints cl w2 (qdrantURL s) vectors
                (map2 (payload (heap st1) (contentKey s)) survivors
                   (slice_writes (map PageContent survivors) writes)) = (ret, w4)"
  shows "AddDocuments s cl st docs options =
     (ret,
      st1\<lparr>world := w4,
          heap := heap st1 @ map2 (payload (heap st1) (contentKey s)) survivors
                    (slice_writes (map PageContent survivors) writes),
          trace := trace st1 @
            [CallEmbedDocuments (map PageContent survivors) vectors None,
             CallUpsertPoints (qdrantURL s) vectors
               (map2 (payload (heap st1) (contentKey s)) survivors
                  (slice_writes (map PageContent survivors) writes))]\<rparr>)"
proof -
  let ?texts = "slice_writes (map PageContent survivors) writes"
  let ?ps = "map2 (payload (heap st1) (contentKey s)) survivors ?texts"
  have lt: "length ?texts = length survivors" by (simp add: length_slice_writes)
  have loop: "metadatas_loop (contentKey s) survivors ?texts 0 [] (heap st1)
      = ([length (heap st1) ..< length (heap st1) + length survivors], heap st1 @ ?ps)"
    using metadatas_loop_all [OF valid lt] .
  have lp: "length ?ps = length survivors" using lt by simp
  have rd: "map (\<lambda>m. (heap st1 @ ?ps) ! m)
              [length (heap st1) ..< length (heap st1) + length survivors] = ?ps"
    using read_fresh [of "heap st1" ?ps] lp by simp
  show ?thesis
    using ne len
    by (simp add: AddDocuments_def ded texts_loop_map emb loop rd ups Let_def)
qed

lemma AddDocuments_upsert_trace:
  assumes ded: "deduplicate st (getOptions options) docs = (survivors, st1)"
    and ne: "survivors \<noteq> []"
    and emb: "EmbedDocuments (embedder s) (world st1) (map PageContent survivors)
                = ((vectors, None), writes, w2)"
    and len: "length vectors = length survivors"
  shows "\<exists>payloads. trace (snd (AddDocuments s cl st docs options)) =
           trace st1 @ [CallEmbedDocuments (map PageContent survivors) vectors None,
                        CallUpsertPoints (qdrantURL s) vectors payloads]"
  using ne len
  by (simp add: AddDocuments_def ded texts_loop_map emb Let_def split: prod.splits)

subsection \<open>The searches\<close>

lemma getFilters_eq: "getFilters opts = Filters opts"
  by (simp add: getFilters_def)

lemma SimilaritySearch_rejected:
  "f32_less (ScoreThreshold (getOptions options)) (Finite 0)
     \<or> f32_less (Finite 1) (ScoreThreshold (getOptions options)) \<Longrightarrow>
   SimilaritySearch s cl st query n options =
     ((None, Some (errors_New ''score threshold must be between 0 and 1'')), st)"
  by (simp add: SimilaritySearch_def getScoreThreshold_def)

lemma SimilaritySearch_trace:
  "\<not> f32_less (ScoreThreshold (getOptions options)) (Finite 0) \<Longrightarrow>
   \<not> f32_less (Finite 1) (ScoreThreshold (getOptions options)) \<Longrightarrow>
   EmbedQuery (embedder s) (world st) query = ((vector, err), w1) \<Longrightarrow>
   trace (snd (SimilaritySearch s cl st query n options)) =
     trace st @ CallEmbedQuery query vector err #
       (if err = None
        then [CallSearchPoints (qdrantURL s) vector n (ScoreThreshold (getOptions options))
                (Filters (getOptions options))]
        else [])"
  by (simp add: SimilaritySearch_def getScoreThreshold_def getFilters_eq Let_def
      split: prod.splits)

lemma PayloadSearch_trace:
  "trace (snd (PayloadSearch s cl st n options)) =
     trace st @ [CallScroll (qdrantURL s) n (Filters (getOptions options))]"
  by (simp add: PayloadSearch_def getFilters_eq Let_def split: prod.splits)

subsection \<open>The examples, evaluated\<close>

lemmas example_defs = example_store_def example_client_def example_state_def example_embedder_def
  lossy_store_def lossy_embedder_def writing_store_def writing_embedder_def
  example_doc_def other_doc_def

lemma example_dedup:
  "deduplicate example_state (getOptions []) [example_doc, other_doc]
     = ([example_doc, other_doc], example_state)"
  by (simp add: deduplicate_def getOptions_def zero_Options_def)

lemma example_dedup_one:
  "deduplicate example_state (getOptions []) [example_doc] = ([example_doc], example_state)"
  by (simp add: deduplicate_def getOptions_def zero_Options_def)

lemma example_valid: "valid_docs (heap example_state) [example_doc, other_doc]"
  by (simp add: valid_docs_def example_defs example_heap_def)

lemma example_valid_one: "valid_docs (heap example_state) [example_doc]"
  by (simp add: valid_docs_def example_defs example_heap_def)

lemma example_embed:
  "EmbedDocuments (embedder example_store) (world example_state)
     (map PageContent [example_doc, other_doc]) = (([[5], [5]], None), [], 1)"
  by (simp add: example_defs)

lemma writing_embed:
  "EmbedDocuments (embedder writing_store) (world example_state)
     (map PageContent [example_doc, other_doc]) = (([[5], [5]], None), [(0, ''MUTATED'')], 1)"
  by (simp add: example_defs)

lemma writing_embed_one:
  "EmbedDocuments (embedder writing_store) (world example_state)
     (map PageContent [example_doc]) = (([[5]], None), [(0, ''MUTATED'')], 1)"
  by (simp add: example_defs)

lemma example_run:
  "AddDocuments example_store example_client example_state [example_doc, other_doc] [] =
     ((Some [''id'', ''id''], None),
      example_state\<lparr>world := 2,
        heap := example_heap @ [payload example_heap ''content'' example_doc ''hello'',
                                payload example_heap ''content'' other_doc ''world''],
        trace := [CallEmbedDocuments [''hello'', ''world''] [[5], [5]] None,
                  CallUpsertPoints ''http://localhost:6333'' [[5], [5]]
                    [payload example_heap ''content'' example_doc ''hello'',
                     payload example_heap ''content'' other_doc ''world'']]\<rparr>)"
  using AddDocuments_upsert [OF example_dedup _ example_embed _ example_valid,
      where cl = example_client and ret = "(Some [''id'', ''id''], None)" and ?w4.0 = 2]
  by (simp add: example_defs)

lemma writing_run:
  "AddDocuments writing_store example_client example_state [example_doc, other_doc] [] =
     ((Some [''id'', ''id''], None),
      example_state\<lparr>world := 2,
        heap := example_heap @ [payload example_heap ''content'' example_doc ''MUTATED'',
                                payload example_heap ''content'' other_doc ''world''],
        trace := [CallEmbedDocuments [''hello'', ''world''] [[5], [5]] None,
                  CallUpsertPoints ''http://localhost:6333'' [[5], [5]]
                    [payload example_heap ''content'' example_doc ''MUTATED'',
                     payload example_heap ''content'' other_doc ''world'']]\<rparr>)"
  using AddDocuments_upsert [OF example_dedup _ writing_embed _ example_valid,
      where cl = example_client and ret = "(Some [''id'', ''id''], None)" and ?w4.0 = 2]
  by (simp add: example_defs)

lemma writing_run_one:
  "AddDocuments writing_store example_client example_state [example_doc] [] =
     ((Some [''id''], None),
      example_state\<lparr>world := 2,
        heap := example_heap @ [payload example_heap ''content'' example_doc ''MUTATED''],
        trace := [CallEmbedDocuments [''hello''] [[5]] None,
                  CallUpsertPoints ''http://localhost:6333'' [[5]]
                    [payload example_heap ''content'' example_doc ''MUTATED'']]\<rparr>)"
  using AddDocuments_upsert [OF example_dedup_one _ writing_embed_one _ example_valid_one,
      where cl = example_client and ret = "(Some [''id''], None)" and ?w4.0 = 2]
  by (simp add: example_defs)

lemma marked_heap:
  "map_assign 0 ''seen'' (String ''yes'') example_heap
     = [DAList.update ''seen'' (String ''yes'') (example_heap ! 0)]"
  by (simp add: map_assign_def example_heap_def)

lemma marking_dedup:
  "deduplicate example_state (getOptions [WithDeduplicater marking]) [example_doc]
   = ([example_doc],
      example_state\<lparr>world := 1,
        heap := [DAList.update ''seen'' (String ''yes'') (example_heap ! 0)],
        trace := [CallDeduplicater example_doc False]\<rparr>)"
  by (simp add: deduplicate_def getOptions_def zero_Options_def WithDeduplicater_def
      marking_def example_state_def example_doc_def marked_heap)

lemma marking_run:
  "heap (snd (AddDocuments example_store example_client example_state [example_doc]
                [WithDeduplicater marking])) ! 0
     = DAList.update ''seen'' (String ''yes'') (example_heap ! 0)"
proof -
  let ?st1 = "example_state\<lparr>world := 1,
        heap := [DAList.update ''seen'' (String ''yes'') (example_heap ! 0)],
        trace := [CallDeduplicater example_doc False]\<rparr>"
  have v: "valid_docs (heap ?st1) [example_doc]"
    by (simp add: valid_docs_def example_doc_def)
  have e: "EmbedDocuments (embedder example_store) (world ?st1) (map PageContent [example_doc])
             = (([[5]], None), [], 2)"
    by (simp add: example_store_def example_embedder_def example_doc_def numeral_2_eq_2)
  show ?thesis
    using AddDocuments_upsert [OF marking_dedup _ e _ v,
        where cl = example_client and ret = "(Some [''id''], None)" and ?w4.0 = 3]
    by (simp add: example_store_def example_client_def numeral_3_eq_3)
qed

lemma example_issued:
  "issued example_state
     (snd (AddDocuments example_store example_client example_state [example_doc, other_doc] []))
   = [CallEmbedDocuments [''hello'', ''world''] [[5], [5]] None,
      CallUpsertPoints ''http://localhost:6333'' [[5], [5]]
        [payload example_heap ''content'' example_doc ''hello'',
         payload example_heap ''content'' other_doc ''world'']]"
  unfolding example_run by (simp add: issued_def example_state_def)

lemma writing_issued:
  "issued example_state
     (snd (AddDocuments writing_store example_client example_state [example_doc, other_doc] []))
   = [CallEmbedDocuments [''hello'', ''world''] [[5], [5]] None,
      CallUpsertPoints ''http://localhost:6333'' [[5], [5]]
        [payload example_heap ''content'' example_doc ''MUTATED'',
         payload example_heap ''content'' other_doc ''world'']]"
  unfolding writing_run by (simp add: issued_def example_state_def)

lemma writing_issued_one:
  "issued example_state
     (snd (AddDocuments writing_store example_client example_state [example_doc] []))
   = [CallEmbedDocuments [''hello''] [[5]] None,
      CallUpsertPoints ''http://localhost:6333'' [[5]]
        [payload example_heap ''content'' example_doc ''MUTATED'']]"
  unfolding writing_run_one by (simp add: issued_def example_state_def)

lemma example_url: "qdrantURL example_store = ''http://localhost:6333''"
  by (simp add: example_store_def)

lemma example_table:
  "DAList.lookup (table (heap example_state) (Metadata example_doc))
     = [''job'' \<mapsto> String ''engineer'']"
  by (rule ext)
    (simp add: table_def example_state_def example_doc_def example_heap_def lookup_update)

lemma lossy_run:
  "AddDocuments lossy_store example_client example_state [example_doc, other_doc] [] =
     ((None, Some (errors_New
         ''number of vectors from embedder does not match number of documents'')),
      example_state\<lparr>world := 1,
        trace := [CallEmbedDocuments [''hello'', ''world''] [[5]] None]\<rparr>)"
  using AddDocuments_mismatch [OF example_dedup,
      where s = lossy_store and vectors = "[[5]]" and writes = "[]" and ?w2.0 = 1
        and cl = example_client]
  by (simp add: example_defs)

lemma all_duplicates_dedup:
  "deduplicate example_state (getOptions [WithDeduplicater always_duplicate])
     [example_doc, other_doc]
   = ([], example_state\<lparr>world := 2,
            trace := [CallDeduplicater example_doc True, CallDeduplicater other_doc True]\<rparr>)"
  by (simp add: deduplicate_def getOptions_def zero_Options_def WithDeduplicater_def
      always_duplicate_def example_state_def)

lemma is_hello_dedup:
  "deduplicate example_state (getOptions [WithDeduplicater is_hello])
     [example_doc, other_doc]
   = ([other_doc], example_state\<lparr>
            trace := [CallDeduplicater example_doc True, CallDeduplicater other_doc False]\<rparr>)"
  by (simp add: deduplicate_def getOptions_def zero_Options_def WithDeduplicater_def
      is_hello_def example_state_def example_doc_def other_doc_def)

lemma threshold_option:
  "ScoreThreshold (getOptions [WithScoreThreshold t] :: (nat, unit) Options) = t"
  "Filters (getOptions [WithScoreThreshold t] :: (nat, unit) Options) = None"
  by (simp_all add: getOptions_def zero_Options_def WithScoreThreshold_def)

lemma example_search_issued:
  "issued example_state
     (snd (SimilaritySearch example_store example_client example_state ''query'' 3
             [WithScoreThreshold (Finite (1 / 2))]))
   = [CallEmbedQuery ''query'' [5] None,
      CallSearchPoints ''http://localhost:6333'' [5] 3 (Finite (1 / 2)) None]"
  using issued_append [OF SimilaritySearch_trace [where s = example_store
      and st = example_state and query = "''query''" and vector = "[5]" and err = None
      and ?w1.0 = 1 and options = "[WithScoreThreshold (Finite (1 / 2))]"
      and cl = example_client and n = 3]]
  by (simp add: threshold_option example_defs)


section \<open>The properties\<close>

text \<open>
  Claim C7. For every input document sequence, \<^verbatim>\<open>deduplicate\<close> returns exactly the
  subsequence of the documents for which the configured predicate returned false, in
  input order: the predicate is called once per document, in order (the calls issued
  are the documents paired with its answers), and the result keeps the documents
  answered with false; for a predicate whose answer depends on the document alone, that
  is the input filtered by the negated predicate. With no predicate configured the
  input is returned unchanged and nothing is called. In all cases the result is a
  subsequence of the input, so it is no longer than the input.
\<close>

theorem deduplicate_subsequence:
  "deduplicate st opts docs = (out, st') \<Longrightarrow>
     (case Deduplicater opts of
        None \<Rightarrow> out = docs \<and> st' = st
      | Some dd \<Rightarrow>
          issued st st' = map2 CallDeduplicater docs (verdicts dd (world st) (heap st) docs)
          \<and> out = kept docs (verdicts dd (world st) (heap st) docs)
          \<and> (\<forall>p. (\<forall>w d. dd w (heap st) d = (p d, w, heap st))
                \<longrightarrow> out = filter (\<lambda>d. \<not> p d) docs))
     \<and> subseq out docs \<and> length out \<le> length docs"
proof -
  assume a: "deduplicate st opts docs = (out, st')"
  have sub: "subseq out docs" using deduplicate_state(2) [OF a] .
  then have len: "length out \<le> length docs" by (rule list_emb_length)
  show ?thesis
  proof (cases "Deduplicater opts")
    case None
    with a sub len show ?thesis by (simp add: deduplicate_def)
  next
    case (Some dd)
    have tr: "trace st' = trace st
                @ map2 CallDeduplicater docs (verdicts dd (world st) (heap st) docs)"
      using deduplicate_state(1) [OF a] Some by (simp add: dedup_calls_def)
    have out: "out = kept docs (verdicts dd (world st) (heap st) docs)"
      using a Some by (simp add: deduplicate_spec)
    have pure: "\<forall>p. (\<forall>w d. dd w (heap st) d = (p d, w, heap st))
                  \<longrightarrow> out = filter (\<lambda>d. \<not> p d) docs"
      using kept_pure [of dd "heap st"] out by simp
    show ?thesis using Some sub len out pure issued_append [OF tr] by simp
  qed
qed

text \<open>The property at the example inputs.\<close>

theorem deduplicate_subsequence_witness:
  "fst (deduplicate example_state (getOptions [WithDeduplicater is_hello])
          [example_doc, other_doc]) = [other_doc]
   \<and> [other_doc] = filter (\<lambda>d. \<not> PageContent d = ''hello'') [example_doc, other_doc]
   \<and> subseq [other_doc] [example_doc, other_doc]
   \<and> fst (deduplicate example_state (getOptions []) [example_doc, other_doc])
       = [example_doc, other_doc]"
proof -
  have opt: "Deduplicater (getOptions [WithDeduplicater is_hello] :: (nat, unit) Options)
               = Some is_hello"
    by (simp add: getOptions_def zero_Options_def WithDeduplicater_def)
  have none: "Deduplicater (getOptions [] :: (nat, unit) Options) = None"
    by (simp add: getOptions_def zero_Options_def)
  note ded = deduplicate_subsequence [OF is_hello_dedup, unfolded opt option.case]
  from ded
  have a: "\<forall>p. (\<forall>w d. is_hello w (heap example_state) d = (p d, w, heap example_state)) \<longrightarrow>
             [other_doc] = filter (\<lambda>d. \<not> p d) [example_doc, other_doc]"
    and b: "subseq [other_doc] [example_doc, other_doc]"
    by blast+
  have "[other_doc] = filter (\<lambda>d. \<not> PageContent d = ''hello'') [example_doc, other_doc]"
    by (rule a [THEN spec, THEN mp]) (simp add: is_hello_def)
  moreover from deduplicate_subsequence [OF example_dedup]
  have "fst (deduplicate example_state (getOptions []) [example_doc, other_doc])
       = [example_doc, other_doc]"
    by (simp add: example_dedup)
  ultimately show ?thesis using b by (simp add: is_hello_dedup)
qed

text \<open>
  Claim C8. \<^verbatim>\<open>CreateEmbedding\<close> returns without error only when the client returned
  without error and the returned embeddings, which are the client's, are as many as the
  input texts. When the client succeeds with an empty result the error is
  \<^verbatim>\<open>ErrEmptyResponse\<close>; when it succeeds with a non-empty result of another length than
  the input, the error is \<^verbatim>\<open>ErrUnexpectedResponseLength\<close>.
\<close>

theorem CreateEmbedding_length_checked:
  "client_CreateEmbedding o' w inputTexts = ((embeddings, cerr), w1) \<Longrightarrow>
   CreateEmbedding o' w inputTexts = ((result, err), w') \<Longrightarrow>
   (err = None \<longrightarrow> cerr = None \<and> result = embeddings \<and> length result = length inputTexts) \<and>
   (cerr = None \<and> embeddings = [] \<longrightarrow> err = Some ErrEmptyResponse) \<and>
   (cerr = None \<and> embeddings \<noteq> [] \<and> length embeddings \<noteq> length inputTexts \<longrightarrow> err = Some ErrUnexpectedResponseLength)"
  by (auto simp: CreateEmbedding_def split: if_splits)

text \<open>The property at the example inputs.\<close>

theorem CreateEmbedding_length_checked_witness:
  "CreateEmbedding lossy_llm 0 [''a'', ''b''] = (([[1]], Some ErrUnexpectedResponseLength), 1)
   \<and> CreateEmbedding example_llm 0 [''a'', ''b''] = (([[1], [1]], None), 1)
   \<and> length [[1::nat], [1]] = length [''a'', ''b'']"
  using CreateEmbedding_length_checked [of lossy_llm 0 "[''a'', ''b'']" "[[1]]" None 1
          "[[1]]" "Some ErrUnexpectedResponseLength" 1]
    CreateEmbedding_length_checked [of example_llm 0 "[''a'', ''b'']" "[[1], [1]]" None 1
          "[[1], [1]]" None 1]
  by (simp add: CreateEmbedding_def lossy_llm_def example_llm_def)

text \<open>
  Claim C10, as amended. For every \<^verbatim>\<open>IndexVectorSearch\<close>, the command of
  \<^verbatim>\<open>AsMetadataSearchCommand\<close> ends with \<^verbatim>\<open>DIALECT 2 LIMIT <offset> <count>\<close>, where the
  count is 1 when the configured limit is 0 and the configured limit otherwise; the
  count is never rendered as 0. For a limit that is not negative the count is
  \<open>max limit 1\<close>.
\<close>

theorem AsMetadataSearchCommand_limit:
  "suffix [''DIALECT'', ''2'', ''LIMIT'', Itoa (offset s),
           Itoa (if limit s = 0 then 1 else limit s)]
     (AsMetadataSearchCommand s)
   \<and> last (AsMetadataSearchCommand s) \<noteq> ''0''
   \<and> (0 \<le> limit s \<longrightarrow> last (AsMetadataSearchCommand s) = Itoa (max (limit s) 1))"
proof -
  have "0 \<le> limit s \<Longrightarrow> limit s \<noteq> 0 \<Longrightarrow> max (limit s) 1 = limit s" by simp
  then show ?thesis
    by (auto simp: AsMetadataSearchCommand_def Let_def suffix_def Itoa_eq_zero)
qed

text \<open>The property at the example inputs.\<close>

theorem AsMetadataSearchCommand_limit_witness:
  "suffix [''DIALECT'', ''2'', ''LIMIT'', ''0'', ''1''] (AsMetadataSearchCommand example_search)
   \<and> last (AsMetadataSearchCommand example_search) \<noteq> ''0''
   \<and> last (AsMetadataSearchCommand example_search) = Itoa (max (limit example_search) 1)"
  using AsMetadataSearchCommand_limit [of example_search]
  by (simp add: example_search_def Itoa_examples)

text \<open>
  With the limit \<open>-1\<close> the command ends with \<^verbatim>\<open>-1\<close>, which is not the rendering of
  \<open>max (-1) 1\<close>.
\<close>

theorem negative_limit_counterexample:
  "AsMetadataSearchCommand negative_limit_search
     = [''FT.SEARCH'', ''users'', ''*'', ''DIALECT'', ''2'', ''LIMIT'', ''0'', ''-1'']
   \<and> Itoa (max (limit negative_limit_search) 1) = ''1''
   \<and> last (AsMetadataSearchCommand negative_limit_search)
       \<noteq> Itoa (max (limit negative_limit_search) 1)"
  by (simp add: AsMetadataSearchCommand_def negative_limit_search_def Itoa_examples)

text \<open>
  Claim C5. When deduplication leaves no document, \<^verbatim>\<open>AddDocuments\<close> returns
  \<^verbatim>\<open>(nil, nil)\<close> in the state deduplication left, and none of the calls issued since
  the start is a call of the embedder or a backend RPC.
\<close>

theorem AddDocuments_no_survivors:
  "deduplicate st (getOptions options) docs = ([], st1) \<Longrightarrow>
   AddDocuments s cl st docs options = ((None, None), st1)
   \<and> (\<forall>e \<in> set (issued st st1). \<not> embedder_call e \<and> \<not> backend_call e)"
proof -
  assume ded: "deduplicate st (getOptions options) docs = ([], st1)"
  have "issued st st1 = dedup_calls (getOptions options) st docs"
    using issued_append [OF deduplicate_state(1) [OF ded]] .
  then have "\<forall>e \<in> set (issued st st1). \<not> embedder_call e \<and> \<not> backend_call e"
    using dedup_calls_only [of _ "getOptions options" st docs] by fastforce
  then show ?thesis using AddDocuments_empty [OF ded] by simp
qed

text \<open>The property at the example inputs.\<close>

theorem AddDocuments_no_survivors_witness:
  "AddDocuments example_store example_client example_state [example_doc, other_doc]
     [WithDeduplicater always_duplicate]
   = ((None, None),
      example_state\<lparr>world := 2,
        trace := [CallDeduplicater example_doc True, CallDeduplicater other_doc True]\<rparr>)"
  using AddDocuments_no_survivors [OF all_duplicates_dedup, of example_store example_client]
  by simp

text \<open>
  Claim C3. When, in a call of \<^verbatim>\<open>AddDocuments\<close>, the embedder has returned without
  error a number of vectors that differs from the number of surviving documents, the
  call returns the length-mismatch error with \<^verbatim>\<open>nil\<close> ids, and no backend RPC (so no
  upsert) is among the calls it issued.
\<close>

theorem AddDocuments_length_mismatch:
  assumes ded: "deduplicate st (getOptions options) docs = (survivors, st1)"
    and run: "AddDocuments s cl st docs options = (ret, st')"
    and ev: "CallEmbedDocuments texts vectors None \<in> set (issued st st')"
    and len: "length vectors \<noteq> length survivors"
  shows "ret = (None, Some (errors_New
           ''number of vectors from embedder does not match number of documents''))
         \<and> (\<forall>e \<in> set (issued st st'). \<not> backend_call e)"
proof -
  let ?D = "dedup_calls (getOptions options) st docs"
  have tr1: "trace st1 = trace st @ ?D" using deduplicate_state(1) [OF ded] .
  have notD: "CallEmbedDocuments texts vectors None \<notin> set ?D"
    using dedup_calls_only [of "CallEmbedDocuments texts vectors None" "getOptions options" st docs] by auto
  have Dsafe: "\<forall>e \<in> set ?D. \<not> backend_call e"
    using dedup_calls_only [of _ "getOptions options" st docs] by fastforce
  show ?thesis
  proof (cases "survivors = []")
    case True
    then have "st' = st1" using AddDocuments_empty [of st options docs st1 s cl] ded run by simp
    then have "issued st st' = ?D" using issued_append [OF tr1] by simp
    with ev notD show ?thesis by simp
  next
    case ne: False
    obtain vs err writes w2 where emb:
      "EmbedDocuments (embedder s) (world st1) (map PageContent survivors)
         = ((vs, err), writes, w2)"
      by (metis prod.exhaust)
    show ?thesis
    proof (cases err)
      case (Some e)
      have "trace st' = trace st @ (?D @ [CallEmbedDocuments (map PageContent survivors) vs (Some e)])"
        using AddDocuments_embed_error [OF ded ne emb [unfolded Some], of cl] run tr1 by auto
      from issued_append [OF this] ev notD show ?thesis by auto
    next
      case None
      show ?thesis
      proof (cases "length vs = length survivors")
        case True
        obtain payloads where
          "trace st' = trace st1 @ [CallEmbedDocuments (map PageContent survivors) vs None,
                        CallUpsertPoints (qdrantURL s) vs payloads]"
          using AddDocuments_upsert_trace [OF ded ne emb [unfolded None] True, of cl] run by auto
        then have "trace st' = trace st @ (?D @ [CallEmbedDocuments (map PageContent survivors) vs None,
                        CallUpsertPoints (qdrantURL s) vs payloads])"
          using tr1 by simp
        from issued_append [OF this] ev notD have "vectors = vs" by auto
        with True len show ?thesis by simp
      next
        case False
        have r: "AddDocuments s cl st docs options =
           ((None, Some (errors_New
               ''number of vectors from embedder does not match number of documents'')),
            st1\<lparr>world := w2,
                trace := trace st1 @ [CallEmbedDocuments (map PageContent survivors) vs None]\<rparr>)"
          using AddDocuments_mismatch [OF ded ne emb [unfolded None] False] .
        then have "trace st' = trace st @ (?D @ [CallEmbedDocuments (map PageContent survivors) vs None])"
          using run tr1 by auto
        from issued_append [OF this] Dsafe r run show ?thesis by auto
      qed
    qed
  qed
qed

text \<open>The property at the example inputs.\<close>

theorem AddDocuments_length_mismatch_witness:
  "CallEmbedDocuments [''hello'', ''world''] [[5]] None
     \<in> set (issued example_state
           (snd (AddDocuments lossy_store example_client example_state
                   [example_doc, other_doc] [])))
   \<and> length [[5::nat]] \<noteq> length [example_doc, other_doc]
   \<and> fst (AddDocuments lossy_store example_client example_state [example_doc, other_doc] [])
       = (None, Some (errors_New
           ''number of vectors from embedder does not match number of documents''))"
proof -
  have ev: "CallEmbedDocuments [''hello'', ''world''] [[5]] None
     \<in> set (issued example_state (example_state\<lparr>world := 1,
        trace := [CallEmbedDocuments [''hello'', ''world''] [[5]] None]\<rparr>))"
    by (simp add: issued_def example_state_def)
  have len: "length [[5::nat]] \<noteq> length [example_doc, other_doc]" by simp
  from AddDocuments_length_mismatch [OF example_dedup lossy_run ev len] ev len
  show ?thesis by (simp add: lossy_run)
qed

text \<open>
  Claim C1, as amended. For every call of \<^verbatim>\<open>AddDocuments\<close> that returns without error,
  either no document survived deduplication (nothing is embedded or built), or after
  deduplication the call issued exactly one call of the embedder, on the page contents
  of the surviving documents in order, and one upsert, of the vectors the embedder
  returned and of the payloads, where the vectors, the payloads and the surviving
  documents are equally many and the payload at each position is the one built from the
  metadata of the surviving document at that position and from the text at that position
  of the slice handed to the embedder, as the embedder left it: the document's page
  content, unless the embedder assigned to that element.
\<close>

theorem AddDocuments_counts_agree:
  assumes valid: "valid_docs (heap st1) survivors"
    and ded: "deduplicate st (getOptions options) docs = (survivors, st1)"
    and emb: "EmbedDocuments (embedder s) (world st1) (map PageContent survivors)
                = ((vectors, err), writes, w2)"
    and run: "AddDocuments s cl st docs options = ((ids, None), st')"
  shows "(survivors = [] \<and> ids = None \<and> st' = st1)
       \<or> (\<exists>payloads.
             issued st1 st' =
               [CallEmbedDocuments (map PageContent survivors) vectors None,
                CallUpsertPoints (qdrantURL s) vectors payloads]
             \<and> length vectors = length survivors
             \<and> length payloads = length survivors
             \<and> (\<forall>i < length survivors.
                   payloads ! i =
                     payload (heap st1) (contentKey s) (survivors ! i)
                       (slice_writes (map PageContent survivors) writes ! i)
                   \<and> (i \<notin> fst ` set writes \<longrightarrow>
                        payloads ! i =
                          payload (heap st1) (contentKey s) (survivors ! i)
                            (PageContent (survivors ! i)))))"
proof (cases "survivors = []")
  case True
  then show ?thesis using AddDocuments_empty [of st options docs st1 s cl] ded run by simp
next
  case ne: False
  have err: "err = None"
  proof (cases err)
    case (Some e)
    then show ?thesis
      using AddDocuments_embed_error [OF ded ne emb [unfolded Some], of cl] run by simp
  qed simp
  have len: "length vectors = length survivors"
  proof (rule ccontr)
    assume "length vectors \<noteq> length survivors"
    from AddDocuments_mismatch [OF ded ne emb [unfolded err] this, of cl] run
    show False by simp
  qed
  let ?texts = "slice_writes (map PageContent survivors) writes"
  let ?ps = "map2 (payload (heap st1) (contentKey s)) survivors ?texts"
  have lt: "length ?texts = length survivors" by (simp add: length_slice_writes)
  obtain r w4 where ups: "upsertPoints cl w2 (qdrantURL s) vectors ?ps = (r, w4)"
    by (metis prod.exhaust)
  have "trace st' = trace st1 @ [CallEmbedDocuments (map PageContent survivors) vectors None,
             CallUpsertPoints (qdrantURL s) vectors ?ps]"
    using AddDocuments_upsert [OF ded ne emb [unfolded err] len valid ups] run by auto
  from issued_append [OF this]
  have iss: "issued st1 st' = [CallEmbedDocuments (map PageContent survivors) vectors None,
             CallUpsertPoints (qdrantURL s) vectors ?ps]" .
  have nth: "\<forall>i < length survivors.
      ?ps ! i = payload (heap st1) (contentKey s) (survivors ! i) (?texts ! i)"
    using lt by simp
  have same: "\<forall>i < length survivors. i \<notin> fst ` set writes \<longrightarrow>
      ?texts ! i = PageContent (survivors ! i)"
    by (simp add: slice_writes_untouched)
  have "length ?ps = length survivors" using lt by simp
  with iss len nth same show ?thesis by auto
qed

text \<open>The property at the example inputs.\<close>

theorem AddDocuments_counts_agree_witness:
  "valid_docs (heap example_state) [example_doc, other_doc]
   \<and> fst (AddDocuments example_store example_client example_state [example_doc, other_doc] [])
       = (Some [''id'', ''id''], None)
   \<and> (\<exists>payloads.
     issued example_state
       (snd (AddDocuments example_store example_client example_state [example_doc, other_doc] []))
       = [CallEmbedDocuments (map PageContent [example_doc, other_doc]) [[5], [5]] None,
          CallUpsertPoints (qdrantURL example_store) [[5], [5]] payloads]
     \<and> length payloads = 2
     \<and> payloads ! 0 = payload (heap example_state) (contentKey example_store) example_doc
                        (PageContent example_doc)
     \<and> payloads ! 1 = payload (heap example_state) (contentKey example_store) other_doc
                        (PageContent other_doc))"
  using AddDocuments_counts_agree [OF example_valid example_dedup example_embed example_run]
    example_valid
  by (auto simp: example_run)

text \<open>
  An embedder that assigns to the first element of the slice it is handed: the call
  returns without error, and the payload sent for the document is not the one built from
  the document's page content.
\<close>

theorem embedder_writes_counterexample:
  "fst (AddDocuments writing_store example_client example_state [example_doc] [])
     = (Some [''id''], None)
   \<and> issued example_state
       (snd (AddDocuments writing_store example_client example_state [example_doc] []))
     = [CallEmbedDocuments [''hello''] [[5]] None,
        CallUpsertPoints ''http://localhost:6333'' [[5]]
          [payload example_heap ''content'' example_doc ''MUTATED'']]
   \<and> payload example_heap ''content'' example_doc ''MUTATED''
       \<noteq> payload example_heap ''content'' example_doc (PageContent example_doc)"
proof -
  have "DAList.lookup (payload example_heap ''content'' example_doc ''MUTATED'') ''content''
          \<noteq> DAList.lookup (payload example_heap ''content'' example_doc
                (PageContent example_doc)) ''content''"
    by (simp add: lookup_payload example_doc_def)
  then have differ: "payload example_heap ''content'' example_doc ''MUTATED''
       \<noteq> payload example_heap ''content'' example_doc (PageContent example_doc)"
    by auto
  have ok: "fst (AddDocuments writing_store example_client example_state [example_doc] [])
     = (Some [''id''], None)"
    by (simp add: writing_run_one)
  from ok writing_issued_one differ show ?thesis by (intro conjI)
qed

text \<open>
  Claim C6, as amended. In every call of \<^verbatim>\<open>AddDocuments\<close> the payloads handed to the
  upsert are one per surviving document, each with the entries of the document's metadata
  map (as deduplication left it) and the content key mapped to the text at the
  document's position in the slice handed to the embedder, as the embedder left it: the
  document's page content, unless the embedder assigned to that element (added, or
  overwritten when the metadata had the key). The steps of \<^verbatim>\<open>AddDocuments\<close> itself write
  to new maps only: the maps that exist when deduplication is done are unchanged after
  the call, and so are the maps that existed before the call when no deduplicater is
  configured or the configured one only reads.
\<close>

theorem AddDocuments_payload_copy:
  assumes valid: "valid_docs (heap st1) survivors"
    and ded: "deduplicate st (getOptions options) docs = (survivors, st1)"
    and emb: "EmbedDocuments (embedder s) (world st1) (map PageContent survivors)
                = ((vectors, err), writes, w2)"
    and run: "AddDocuments s cl st docs options = (ret, st')"
  shows "take (length (heap st1)) (heap st') = heap st1
       \<and> ((case Deduplicater (getOptions options) of
              None \<Rightarrow> True | Some dd \<Rightarrow> reads_only dd) \<longrightarrow>
            heap st1 = heap st \<and> take (length (heap st)) (heap st') = heap st)
       \<and> (\<forall>url vs payloads.
            CallUpsertPoints url vs payloads \<in> set (issued st st') \<longrightarrow>
              length payloads = length survivors
              \<and> (\<forall>i < length survivors.
                    DAList.lookup (payloads ! i)
                      = (DAList.lookup (table (heap st1) (Metadata (survivors ! i))))
                          (contentKey s \<mapsto>
                             String (slice_writes (map PageContent survivors) writes ! i))
                    \<and> (i \<notin> fst ` set writes \<longrightarrow>
                         DAList.lookup (payloads ! i)
                           = (DAList.lookup (table (heap st1) (Metadata (survivors ! i))))
                               (contentKey s \<mapsto> String (PageContent (survivors ! i))))))"
proof -
  let ?D = "dedup_calls (getOptions options) st docs"
  let ?texts = "slice_writes (map PageContent survivors) writes"
  let ?ps = "map2 (payload (heap st1) (contentKey s)) survivors ?texts"
  have tr1: "trace st1 = trace st @ ?D" using deduplicate_state(1) [OF ded] .
  have notD: "\<And>url vs payloads. CallUpsertPoints url vs payloads \<notin> set ?D"
    using dedup_calls_only [of _ "getOptions options" st docs] by fastforce
  have lt: "length ?texts = length survivors" by (simp add: length_slice_writes)
  have built: "length ?ps = length survivors
       \<and> (\<forall>i < length survivors.
             DAList.lookup (?ps ! i)
               = (DAList.lookup (table (heap st1) (Metadata (survivors ! i))))
                   (contentKey s \<mapsto> String (?texts ! i))
             \<and> (i \<notin> fst ` set writes \<longrightarrow>
                  DAList.lookup (?ps ! i)
                    = (DAList.lookup (table (heap st1) (Metadata (survivors ! i))))
                        (contentKey s \<mapsto> String (PageContent (survivors ! i)))))"
    using lt by (simp add: lookup_payload slice_writes_untouched)
  have main: "take (length (heap st1)) (heap st') = heap st1
       \<and> (\<forall>url vs payloads.
            CallUpsertPoints url vs payloads \<in> set (issued st st') \<longrightarrow> payloads = ?ps)"
  proof (cases "survivors = []")
    case True
    then have "st' = st1" using AddDocuments_empty [of st options docs st1 s cl] ded run by simp
    then show ?thesis using issued_append [OF tr1] notD by simp
  next
    case ne: False
    show ?thesis
    proof (cases err)
      case (Some e)
      have st': "st' = st1\<lparr>world := w2,
          trace := trace st1
            @ [CallEmbedDocuments (map PageContent survivors) vectors (Some e)]\<rparr>"
        using AddDocuments_embed_error [OF ded ne emb [unfolded Some], of cl] run by simp
      then have "trace st' = trace st
          @ (?D @ [CallEmbedDocuments (map PageContent survivors) vectors (Some e)])"
        using tr1 by simp
      from issued_append [OF this] notD st' show ?thesis by auto
    next
      case None
      show ?thesis
      proof (cases "length vectors = length survivors")
        case False
        have st': "st' = st1\<lparr>world := w2,
            trace := trace st1
              @ [CallEmbedDocuments (map PageContent survivors) vectors None]\<rparr>"
          using AddDocuments_mismatch [OF ded ne emb [unfolded None] False, of cl] run
          by simp
        then have "trace st' = trace st
            @ (?D @ [CallEmbedDocuments (map PageContent survivors) vectors None])"
          using tr1 by simp
        from issued_append [OF this] notD st' show ?thesis by auto
      next
        case True
        obtain r w4 where ups: "upsertPoints cl w2 (qdrantURL s) vectors ?ps = (r, w4)"
          by (metis prod.exhaust)
        have st': "st' = st1\<lparr>world := w4, heap := heap st1 @ ?ps,
            trace := trace st1 @ [CallEmbedDocuments (map PageContent survivors) vectors None,
               CallUpsertPoints (qdrantURL s) vectors ?ps]\<rparr>"
          using AddDocuments_upsert [OF ded ne emb [unfolded None] True valid ups] run by simp
        then have "trace st' = trace st
            @ (?D @ [CallEmbedDocuments (map PageContent survivors) vectors None,
                     CallUpsertPoints (qdrantURL s) vectors ?ps])"
          using tr1 by simp
        from issued_append [OF this] notD st' show ?thesis by auto
      qed
    qed
  qed
  have ro: "(case Deduplicater (getOptions options) of
              None \<Rightarrow> True | Some dd \<Rightarrow> reads_only dd) \<longrightarrow>
            heap st1 = heap st \<and> take (length (heap st)) (heap st') = heap st"
    using deduplicate_state(3) [OF ded] main by auto
  from main built ro show ?thesis by blast
qed

text \<open>
  The property at the example of the spec: metadata \<open>{job: engineer}\<close>, content key
  \<open>content\<close> and text \<open>hello\<close>.
\<close>

theorem AddDocuments_payload_copy_witness:
  "take (length (heap example_state))
     (heap (snd (AddDocuments example_store example_client example_state
                   [example_doc, other_doc] [])))
     = heap example_state
   \<and> heap example_state = example_heap
   \<and> DAList.lookup (example_heap ! 0) = [''job'' \<mapsto> String ''engineer'']
   \<and> (\<exists>vectors payloads.
         CallUpsertPoints ''http://localhost:6333'' vectors payloads
           \<in> set (issued example_state
                 (snd (AddDocuments example_store example_client example_state
                         [example_doc, other_doc] [])))
         \<and> length payloads = 2
         \<and> DAList.lookup (payloads ! 0)
             = [''job'' \<mapsto> String ''engineer'', ''content'' \<mapsto> String ''hello''])"
proof -
  let ?st' = "snd (AddDocuments example_store example_client example_state
                     [example_doc, other_doc] [])"
  let ?ps = "[payload example_heap ''content'' example_doc ''hello'',
              payload example_heap ''content'' other_doc ''world'']"
  note copy = AddDocuments_payload_copy
                [OF example_valid example_dedup example_embed example_run]
  have mem: "CallUpsertPoints ''http://localhost:6333'' [[5], [5]] ?ps
               \<in> set (issued example_state ?st')"
    by (simp add: example_issued)
  from copy have unchanged: "take (length (heap example_state)) (heap ?st') = heap example_state"
    by (simp add: example_run)
  note built = copy [THEN conjunct2, THEN conjunct2, rule_format,
                     OF mem [unfolded example_run snd_conv]]
  from built [THEN conjunct2, rule_format, of 0]
  have "DAList.lookup (?ps ! 0)
          = (DAList.lookup (table (heap example_state) (Metadata example_doc)))
              (contentKey example_store \<mapsto> String (PageContent example_doc))"
    by simp
  moreover have "PageContent example_doc = ''hello''" by (simp add: example_doc_def)
  ultimately have "length ?ps = 2 \<and> DAList.lookup (?ps ! 0)
      = [''job'' \<mapsto> String ''engineer'', ''content'' \<mapsto> String ''hello'']"
    by (simp add: example_table example_store_def)
  moreover have "DAList.lookup (example_heap ! 0) = [''job'' \<mapsto> String ''engineer'']"
    using example_table by (simp add: table_def example_state_def example_doc_def)
  moreover have "heap example_state = example_heap" by (simp add: example_state_def)
  ultimately show ?thesis using unchanged mem by blast
qed

text \<open>
  With the embedder that assigns to the first element of the slice it is handed, the
  content key of the first payload is not mapped to the document's page content; and with
  a deduplicater that writes to the metadata map it is handed, the caller's map is changed
  after the call.
\<close>

theorem payload_copy_counterexample:
  "issued example_state
     (snd (AddDocuments writing_store example_client example_state [example_doc, other_doc] []))
     = [CallEmbedDocuments [''hello'', ''world''] [[5], [5]] None,
        CallUpsertPoints ''http://localhost:6333'' [[5], [5]]
          [payload example_heap ''content'' example_doc ''MUTATED'',
           payload example_heap ''content'' other_doc ''world'']]
   \<and> DAList.lookup (payload example_heap ''content'' example_doc ''MUTATED'') ''content''
       = Some (String ''MUTATED'')
   \<and> PageContent example_doc = ''hello''
   \<and> Metadata example_doc = Some 0
   \<and> DAList.lookup (heap example_state ! 0) ''seen'' = None
   \<and> DAList.lookup
        (heap (snd (AddDocuments example_store example_client example_state [example_doc]
                      [WithDeduplicater marking])) ! 0) ''seen''
       = Some (String ''yes'')"
proof -
  have sent: "DAList.lookup (payload example_heap ''content'' example_doc ''MUTATED'')
                ''content'' = Some (String ''MUTATED'')"
    by (simp add: lookup_payload)
  have doc: "PageContent example_doc = ''hello''" "Metadata example_doc = Some 0"
    by (simp_all add: example_doc_def)
  have before: "DAList.lookup (heap example_state ! 0) ''seen'' = None"
    by (simp add: example_state_def example_heap_def lookup_update)
  have after: "DAList.lookup
        (heap (snd (AddDocuments example_store example_client example_state [example_doc]
                      [WithDeduplicater marking])) ! 0) ''seen''
       = Some (String ''yes'')"
    by (simp add: marking_run)
  from writing_issued sent doc before after show ?thesis by (intro conjI)
qed

text \<open>
  Claim C4. When the resolved score threshold is less than 0 or greater than 1,
  \<^verbatim>\<open>SimilaritySearch\<close> returns the validation error in an unchanged state: no call of
  the embedder and no backend RPC is issued. For a threshold in \<open>[0, 1]\<close> the
  validation passes with the threshold unchanged: the call embeds the query and, when
  that succeeds, searches with exactly this threshold.
\<close>

theorem SimilaritySearch_threshold_validated:
  "(f32_less (ScoreThreshold (getOptions options)) (Finite 0)
      \<or> f32_less (Finite 1) (ScoreThreshold (getOptions options)) \<longrightarrow>
      SimilaritySearch s cl st query n options =
        ((None, Some (errors_New ''score threshold must be between 0 and 1'')), st)
      \<and> issued st (snd (SimilaritySearch s cl st query n options)) = [])
   \<and> (\<forall>r. ScoreThreshold (getOptions options) = Finite r \<and> 0 \<le> r \<and> r \<le> 1 \<longrightarrow>
         getScoreThreshold (getOptions options) = (Finite r, None)
         \<and> (\<exists>vector err.
               issued st (snd (SimilaritySearch s cl st query n options)) =
                 CallEmbedQuery query vector err #
                   (if err = None
                    then [CallSearchPoints (qdrantURL s) vector n (Finite r)
                            (Filters (getOptions options))]
                    else [])))"
proof (intro conjI impI allI)
  assume bad: "f32_less (ScoreThreshold (getOptions options)) (Finite 0)
      \<or> f32_less (Finite 1) (ScoreThreshold (getOptions options))"
  show "SimilaritySearch s cl st query n options =
        ((None, Some (errors_New ''score threshold must be between 0 and 1'')), st)"
    using SimilaritySearch_rejected [OF bad] .
  then show "issued st (snd (SimilaritySearch s cl st query n options)) = []"
    by (simp add: issued_def)
next
  fix r assume ok: "ScoreThreshold (getOptions options) = Finite r \<and> 0 \<le> r \<and> r \<le> 1"
  then show "getScoreThreshold (getOptions options) = (Finite r, None)"
    by (simp add: getScoreThreshold_def)
  obtain vector err w1 where emb: "EmbedQuery (embedder s) (world st) query = ((vector, err), w1)"
    by (metis prod.exhaust)
  have "trace (snd (SimilaritySearch s cl st query n options)) =
     trace st @ CallEmbedQuery query vector err #
       (if err = None
        then [CallSearchPoints (qdrantURL s) vector n (Finite r) (Filters (getOptions options))]
        else [])"
    using SimilaritySearch_trace [OF _ _ emb, of options cl n] ok by simp
  from issued_append [OF this]
  show "\<exists>vector err.
               issued st (snd (SimilaritySearch s cl st query n options)) =
                 CallEmbedQuery query vector err #
                   (if err = None
                    then [CallSearchPoints (qdrantURL s) vector n (Finite r)
                            (Filters (getOptions options))]
                    else [])"
    by blast
qed

text \<open>The property at the example inputs.\<close>

theorem SimilaritySearch_threshold_validated_witness:
  "SimilaritySearch example_store example_client example_state ''query'' 3
     [WithScoreThreshold (Finite (3 / 2))]
     = ((None, Some (errors_New ''score threshold must be between 0 and 1'')), example_state)
   \<and> getScoreThreshold (getOptions [WithScoreThreshold (Finite (1 / 2))] :: (nat, unit) Options)
       = (Finite (1 / 2), None)
   \<and> issued example_state
       (snd (SimilaritySearch example_store example_client example_state ''query'' 3
               [WithScoreThreshold (Finite (1 / 2))]))
       = [CallEmbedQuery ''query'' [5] None,
          CallSearchPoints ''http://localhost:6333'' [5] 3 (Finite (1 / 2)) None]"
  using SimilaritySearch_threshold_validated [of "[WithScoreThreshold (Finite (3 / 2))]"
          example_store example_client example_state "''query''" 3]
    SimilaritySearch_threshold_validated [of "[WithScoreThreshold (Finite (1 / 2))]"
          example_store example_client example_state "''query''" 3]
  by (simp add: threshold_option example_search_issued)

text \<open>
  Claim C9. Every call of \<^verbatim>\<open>PayloadSearch\<close>, whatever the score threshold among its
  options, issues exactly one call, the scroll RPC with the number of documents asked
  for and the filter of the options, and returns what the scroll returned.
\<close>

theorem PayloadSearch_scroll_only:
  "PayloadSearch s cl st n options = (ret, st') \<Longrightarrow>
   issued st st' = [CallScroll (qdrantURL s) n (Filters (getOptions options))]
   \<and> ret = fst (scroll cl (world st) (heap st) (qdrantURL s) n (Filters (getOptions options)))"
proof -
  assume run: "PayloadSearch s cl st n options = (ret, st')"
  have "trace st' = trace st @ [CallScroll (qdrantURL s) n (Filters (getOptions options))]"
    using PayloadSearch_trace [of s cl st n options] run by simp
  from issued_append [OF this]
  have "issued st st' = [CallScroll (qdrantURL s) n (Filters (getOptions options))]" .
  moreover have "ret = fst (scroll cl (world st) (heap st) (qdrantURL s) n (Filters (getOptions options)))"
    using run by (auto simp: PayloadSearch_def getFilters_eq Let_def split: prod.splits)
  ultimately show ?thesis by simp
qed

text \<open>The property at the example inputs.\<close>

theorem PayloadSearch_scroll_only_witness:
  "issued example_state
     (snd (PayloadSearch example_store example_client example_state 3
             [WithScoreThreshold (Finite (3 / 2))]))
     = [CallScroll ''http://localhost:6333'' 3 None]
   \<and> fst (PayloadSearch example_store example_client example_state 3
            [WithScoreThreshold (Finite (3 / 2))]) = (Some [], None)
   \<and> f32_less (Finite 1)
        (ScoreThreshold (getOptions [WithScoreThreshold (Finite (3 / 2))] :: (nat, unit) Options))"
  using PayloadSearch_scroll_only [OF prod.collapse [symmetric],
          where s = example_store and cl = example_client and st = example_state and n = 3
            and options = "[WithScoreThreshold (Finite (3 / 2))]"]
  by (simp add: threshold_option example_url example_client_def)

text \<open>
  Claim C2, as amended. When the caller sets no filter option, the filter handed to the
  backend by \<^verbatim>\<open>PayloadSearch\<close> and by \<^verbatim>\<open>SimilaritySearch\<close> is \<^verbatim>\<open>nil\<close>, the absent filter;
  the wildcard \<^verbatim>\<open>*\<close> is the query of the redisvector command
  \<^verbatim>\<open>AsMetadataSearchCommand\<close> when no pre-filter is set.
\<close>

theorem no_filter_hands_nil:
  "Filters (getOptions options) = None \<Longrightarrow>
   issued st (snd (PayloadSearch s cl st n options)) = [CallScroll (qdrantURL s) n None]
   \<and> (\<forall>e \<in> set (issued st (snd (SimilaritySearch s cl st query n options))).
         case e of CallSearchPoints url vector k t f \<Rightarrow> f = None | _ \<Rightarrow> True)
   \<and> (preFilters ivs = [] \<longrightarrow> AsMetadataSearchCommand ivs ! 2 = ''*'')"
proof -
  assume nofilter: "Filters (getOptions options) = None"
  have a: "issued st (snd (PayloadSearch s cl st n options)) = [CallScroll (qdrantURL s) n None]"
    using issued_append [OF PayloadSearch_trace [of s cl st n options]] nofilter by simp
  have b: "\<forall>e \<in> set (issued st (snd (SimilaritySearch s cl st query n options))).
         case e of CallSearchPoints url vector k t f \<Rightarrow> f = None | _ \<Rightarrow> True"
  proof (cases "f32_less (ScoreThreshold (getOptions options)) (Finite 0)
      \<or> f32_less (Finite 1) (ScoreThreshold (getOptions options))")
    case True
    from SimilaritySearch_rejected [OF True, of s cl st query n] show ?thesis
      by (simp add: issued_def)
  next
    case False
    obtain vector err w1 where emb: "EmbedQuery (embedder s) (world st) query = ((vector, err), w1)"
      by (metis prod.exhaust)
    from False issued_append [OF SimilaritySearch_trace [OF _ _ emb, of options cl n]] nofilter
    show ?thesis by simp
  qed
  have c: "preFilters ivs = [] \<longrightarrow> AsMetadataSearchCommand ivs ! 2 = ''*''"
    by (simp add: AsMetadataSearchCommand_def Let_def nth_append)
  from a b c show ?thesis by simp
qed

text \<open>The property at the example inputs.\<close>

theorem no_filter_hands_nil_witness:
  "issued example_state
     (snd (PayloadSearch example_store example_client example_state 3
             [WithScoreThreshold (Finite (1 / 2))]))
     = [CallScroll ''http://localhost:6333'' 3 None]
   \<and> issued example_state
       (snd (SimilaritySearch example_store example_client example_state ''query'' 3
               [WithScoreThreshold (Finite (1 / 2))]))
       = [CallEmbedQuery ''query'' [5] None,
          CallSearchPoints ''http://localhost:6333'' [5] 3 (Finite (1 / 2)) None]
   \<and> AsMetadataSearchCommand example_search ! 2 = ''*''"
  using no_filter_hands_nil [of "[WithScoreThreshold (Finite (1 / 2))]"
          example_state example_store example_client 3 "''query''" example_search]
  by (simp add: threshold_option example_search_issued example_url example_search_def)

text \<open>
  A \<^verbatim>\<open>PayloadSearch\<close> with no option at all: the scroll is handed the \<^verbatim>\<open>nil\<close> filter.
\<close>

theorem no_filter_counterexample:
  "Filters (getOptions [] :: (nat, unit) Options) = None
   \<and> issued example_state (snd (PayloadSearch example_store example_client example_state 3 []))
       = [CallScroll ''http://localhost:6333'' 3 None]"
  using issued_append [OF PayloadSearch_trace [of example_store example_client example_state 3 "[]"]]
  by (simp add: getOptions_def zero_Options_def example_url)

end
